theory Spec2Isabelle
  imports Main "HOL-Library.Log_Nat"
begin

section \<open>JavaScript values used by the application\<close>

text \<open>
  Strings are modelled as \<open>string\<close> (lists of 8-bit characters, read as the code
  units below 256). The only case
  conversion the code performs is \<open>toLowerCase()\<close> followed by
  \<open>startsWith("0x")\<close>; on that test the ASCII letter mapping below agrees with
  JavaScript for every input, since no character other than \<open>X\<close> and \<open>x\<close>
  lower-cases to \<open>x\<close> and \<open>0\<close> is only produced by \<open>0\<close>.
\<close>

definition toLowerChar :: "char \<Rightarrow> char" where
  "toLowerChar c =
     (case map_of (zip ''ABCDEFGHIJKLMNOPQRSTUVWXYZ'' ''abcdefghijklmnopqrstuvwxyz'') c of
        Some l \<Rightarrow> l
      | None \<Rightarrow> c)"

definition toLowerCase :: "string \<Rightarrow> string" where
  "toLowerCase s = map toLowerChar s"

definition startsWith :: "string \<Rightarrow> string \<Rightarrow> bool" where
  "startsWith s p = (take (length p) s = p)"

text \<open>\<open>s.slice(2)\<close> and \<open>s.substring(2)\<close>: the string without its first two
  characters (empty when it has fewer than two).\<close>

definition slice2 :: "string \<Rightarrow> string" where
  "slice2 s = drop 2 s"

definition substring2 :: "string \<Rightarrow> string" where
  "substring2 s = drop 2 s"

text \<open>
  Values that can be thrown and what \<open>getErrorMessage\<close> (aptos-utils.ts) and the
  \<open>err instanceof Error ? err.message : ...\<close> idiom make of them.
\<close>

datatype js_error =
    ErrorObj string        \<comment> \<open>an \<open>Error\<close> instance with its message\<close>
  | ThrownString string    \<comment> \<open>a thrown string\<close>
  | ThrownMessage string   \<comment> \<open>a non-Error object with a \<open>message\<close> property\<close>
  | ThrownOther            \<comment> \<open>anything else\<close>

fun getErrorMessage :: "js_error \<Rightarrow> string" where
  "getErrorMessage (ErrorObj m) = m"
| "getErrorMessage (ThrownString s) = s"
| "getErrorMessage (ThrownMessage m) = m"
| "getErrorMessage ThrownOther = ''An unknown error occurred''"

section \<open>aptos-utils.ts: key normalisation and address validation\<close>

definition digit_char :: "nat \<Rightarrow> char" where
  "digit_char n = ''0123456789'' ! (n mod 10)"

fun show_nat :: "nat \<Rightarrow> string" where
  "show_nat n = (if n < 10 then [digit_char n] else show_nat (n div 10) @ [digit_char n])"

declare show_nat.simps [simp del]

text \<open>
  \<open>cleanPublicKey\<close>: strip a case-insensitive \<open>0x\<close> prefix, then a leading
  \<open>00\<close> of a 66-character string, then insist on length 64. The thrown
  \<open>Error\<close> carries the offending length in its message.
\<close>

definition cleanPublicKey :: "string \<Rightarrow> js_error + string" where
  "cleanPublicKey publicKeyHex =
     (let cleaned = publicKeyHex;
          cleaned = (if startsWith (toLowerCase cleaned) ''0x'' then slice2 cleaned else cleaned);
          cleaned = (if length cleaned = 66 \<and> startsWith cleaned ''00''
                     then substring2 cleaned else cleaned)
      in if length cleaned \<noteq> 64
         then Inl (ErrorObj (''Invalid public key length: '' @ show_nat (length cleaned)
                             @ '', expected 64''))
         else Inr cleaned)"

text \<open>
  \<open>isValidAddress\<close> wraps the SDK parser \<open>AccountAddress.from\<close>, which is not
  part of the repository: it is a parameter, returning the thrown value or the
  parsed address.
\<close>

type_synonym address_parser = "string \<Rightarrow> js_error + string"

definition isValidAddress :: "address_parser \<Rightarrow> string \<Rightarrow> js_error + bool" where
  "isValidAddress accountAddressFrom address =
     (case accountAddressFrom address of
        Inr _ \<Rightarrow> Inr True
      | Inl _ \<Rightarrow> Inr False)"

definition is_hex_char :: "char \<Rightarrow> bool" where
  "is_hex_char c = (c \<in> set ''0123456789abcdefABCDEF'')"

definition is_hex :: "string \<Rightarrow> bool" where
  "is_hex s = list_all is_hex_char s"

section \<open>JavaScript numbers\<close>

text \<open>
  A JavaScript \<open>number\<close> is an IEEE-754 binary64 value. The finite ones are
  modelled by the rational they denote (negative zero is identified with zero,
  which none of the code below can tell apart), the others by \<open>NaN\<close>,
  \<open>PosInf\<close> and \<open>NegInf\<close>. Every arithmetic operation computes the exact
  rational result and rounds it with \<open>rnd\<close>: to the nearest value with a 53-bit
  significand, ties to even, with gradual underflow below \<open>2^-1022\<close> and overflow
  to infinity once the rounded magnitude reaches \<open>2^1024\<close> (its binary exponent
  is 1024 or more).
\<close>

datatype jsnum = NaN | PosInf | NegInf | Fin rat

definition pow2 :: "int \<Rightarrow> rat" where
  "pow2 e = (if 0 \<le> e then 2 ^ nat e else 1 / 2 ^ nat (- e))"

definition pow10 :: "int \<Rightarrow> rat" where
  "pow10 e = (if 0 \<le> e then 10 ^ nat e else 1 / 10 ^ nat (- e))"

text \<open>\<open>ilog2 a\<close> is the binary exponent of a positive rational:
  \<open>2 ^ ilog2 a \<le> a < 2 ^ (ilog2 a + 1)\<close>.\<close>

definition ilog2 :: "rat \<Rightarrow> int" where
  "ilog2 a = (let (n, d) = quotient_of a; k = bitlen n - bitlen d
              in if pow2 k \<le> a then k else k - 1)"

definition round_even :: "rat \<Rightarrow> int" where
  "round_even q =
     (let f = \<lfloor>q\<rfloor>; d = q - of_int f
      in if d < 1 / 2 then f
         else if 1 / 2 < d then f + 1
         else if even f then f else f + 1)"

definition rnd :: "rat \<Rightarrow> jsnum" where
  "rnd q =
     (if q = 0 then Fin 0
      else let a = \<bar>q\<bar>;
               p = max (ilog2 a - 52) (- 1074);
               v = of_int (round_even (a / pow2 p)) * pow2 p
           in if 1024 \<le> ilog2 v then (if 0 < q then PosInf else NegInf)
              else Fin (if 0 < q then v else - v))"

text \<open>The number denoted by the decimal numeral \<open>n \<times> 10^-k\<close>, as a literal in the
  source or as typed into a form field: the nearest binary64 value.\<close>

definition js_decimal :: "int \<Rightarrow> nat \<Rightarrow> jsnum" where
  "js_decimal n k = rnd (of_int n / 10 ^ k)"

text \<open>Multiplication, division and addition with a positive finite constant as the
  second operand (the code only uses \<open>* 100000000\<close>, \<open>/ 100000000\<close> and
  \<open>+ BET_AMOUNT\<close>).\<close>

fun js_mul :: "jsnum \<Rightarrow> rat \<Rightarrow> jsnum" where
  "js_mul (Fin q) c = rnd (q * c)"
| "js_mul x c = x"

fun js_div :: "jsnum \<Rightarrow> rat \<Rightarrow> jsnum" where
  "js_div (Fin q) c = rnd (q / c)"
| "js_div x c = x"

fun js_add :: "jsnum \<Rightarrow> rat \<Rightarrow> jsnum" where
  "js_add (Fin q) c = rnd (q + c)"
| "js_add x c = x"

fun math_floor :: "jsnum \<Rightarrow> jsnum" where
  "math_floor (Fin q) = Fin (of_int \<lfloor>q\<rfloor>)"
| "math_floor x = x"

text \<open>\<open>a > b\<close> and \<open>a === b\<close> on numbers: false whenever an operand is \<open>NaN\<close>.\<close>

fun js_gt :: "jsnum \<Rightarrow> jsnum \<Rightarrow> bool" where
  "js_gt NaN _ = False"
| "js_gt _ NaN = False"
| "js_gt PosInf b = (b \<noteq> PosInf)"
| "js_gt NegInf _ = False"
| "js_gt (Fin a) PosInf = False"
| "js_gt (Fin a) NegInf = True"
| "js_gt (Fin a) (Fin b) = (b < a)"

fun js_eq :: "jsnum \<Rightarrow> jsnum \<Rightarrow> bool" where
  "js_eq NaN _ = False"
| "js_eq _ NaN = False"
| "js_eq a b = (a = b)"

text \<open>\<open>BigInt(x)\<close> throws a \<open>RangeError\<close> unless \<open>x\<close> is an integral finite
  number; \<open>Number(n)\<close> rounds a bigint to the nearest number.\<close>

fun bigInt :: "jsnum \<Rightarrow> js_error + int" where
  "bigInt (Fin q) =
     (if of_int \<lfloor>q\<rfloor> = q then Inr \<lfloor>q\<rfloor>
      else Inl (ErrorObj ''The number cannot be converted to a BigInt because it is not an integer''))"
| "bigInt x = Inl (ErrorObj ''The number cannot be converted to a BigInt because it is not an integer'')"

definition number_of_bigint :: "int \<Rightarrow> jsnum" where
  "number_of_bigint n = rnd (of_int n)"

subsection \<open>\<open>parseInt\<close> and \<open>parseFloat\<close>\<close>

text \<open>White space as \<open>trim\<close>, \<open>parseInt\<close> and \<open>parseFloat\<close> strip it: of the
  code units below 256 these are tab, line feed, vertical tab, form feed, carriage
  return, space and the no-break space U+00A0. (The white space of JavaScript beyond
  U+00FF has no counterpart in 8-bit strings.)\<close>

definition is_ws :: "char \<Rightarrow> bool" where
  "is_ws c =
     (c \<in> set [CHR '' '', CHR 0x09, CHR 0x0A, CHR 0x0B, CHR 0x0C, CHR 0x0D, CHR 0xA0])"

definition is_digit :: "char \<Rightarrow> bool" where
  "is_digit c = (c \<in> set ''0123456789'')"

definition digit_val :: "char \<Rightarrow> int" where
  "digit_val c =
     (case map_of (zip ''0123456789abcdef'' [0, 1, 2, 3, 4, 5, 6, 7, 8, 9, 10, 11, 12, 13, 14, 15])
             (toLowerChar c) of
        Some v \<Rightarrow> v
      | None \<Rightarrow> 0)"

definition digits_val :: "int \<Rightarrow> string \<Rightarrow> int" where
  "digits_val base ds = foldl (\<lambda>acc c. acc * base + digit_val c) 0 ds"

text \<open>An optional sign in front of the rest of the string.\<close>

fun split_sign :: "string \<Rightarrow> bool \<times> string" where
  "split_sign [] = (False, [])"
| "split_sign (c # r) =
     (if c = CHR ''-'' then (True, r) else if c = CHR ''+'' then (False, r) else (False, c # r))"

text \<open>\<open>parseInt(s)\<close> without a radix: leading white space, a sign, a \<open>0x\<close> prefix
  selecting base 16, then the longest run of digits; \<open>NaN\<close> when there is none.\<close>

definition parseInt :: "string \<Rightarrow> jsnum" where
  "parseInt s =
     (let (neg, t) = split_sign (dropWhile is_ws s);
          hex = startsWith (toLowerCase t) ''0x'';
          ds = (if hex then takeWhile is_hex_char (drop 2 t) else takeWhile is_digit t);
          v = (of_int (digits_val (if hex then 16 else 10) ds) :: rat)
      in if ds = [] then NaN else rnd (if neg then - v else v))"

text \<open>The exponent part \<open>e[+-]digits\<close> of a decimal literal (0 when absent or
  malformed).\<close>

fun exponent_part :: "string \<Rightarrow> int" where
  "exponent_part [] = 0"
| "exponent_part (c # r) =
     (if c = CHR ''e'' \<or> c = CHR ''E''
      then (let (neg, t) = split_sign r; ds = takeWhile is_digit t;
                v = digits_val 10 ds
            in if ds = [] then 0 else if neg then - v else v)
      else 0)"

text \<open>\<open>parseFloat(s)\<close>: leading white space, then the longest prefix that is a
  decimal literal (sign, \<open>Infinity\<close> or digits with an optional fraction and
  exponent); \<open>NaN\<close> when there is none.\<close>

definition parseFloat :: "string \<Rightarrow> jsnum" where
  "parseFloat s =
     (let (neg, t) = split_sign (dropWhile is_ws s)
      in if startsWith t ''Infinity'' then (if neg then NegInf else PosInf)
         else
           let ip = takeWhile is_digit t;
               t1 = dropWhile is_digit t;
               dot = (t1 \<noteq> [] \<and> hd t1 = CHR ''.'');
               fp = (if dot then takeWhile is_digit (tl t1) else []);
               t2 = (if dot then dropWhile is_digit (tl t1) else t1);
               q = of_int (digits_val 10 (ip @ fp)) * pow10 (exponent_part t2 - int (length fp))
           in if ip = [] \<and> fp = [] then NaN else rnd (if neg then - q else q))"

subsection \<open>aptos-utils.ts: unit conversion\<close>

datatype octas_arg = OStr string | ONum jsnum | OBig int

definition octasToAPT :: "octas_arg \<Rightarrow> jsnum" where
  "octasToAPT octas =
     (let octasNumber =
            (case octas of
               OBig n \<Rightarrow> number_of_bigint n
             | OStr s \<Rightarrow> parseInt s
             | ONum x \<Rightarrow> x)
      in js_div octasNumber 100000000)"

definition aptToOctas :: "jsnum \<Rightarrow> js_error + int" where
  "aptToOctas apt = bigInt (math_floor (js_mul apt 100000000))"

section \<open>Linked accounts and the account resolver\<close>

text \<open>
  The identity provider hands over \<open>user.linkedAccounts\<close>, an array of records of
  unknown shape; the code inspects them with \<open>typeof\<close>, \<open>in\<close> and property
  reads. An object is an association list of its own properties.
\<close>

datatype jsval =
    JUndefined
  | JNull
  | JBool bool
  | JNumber jsnum
  | JString string
  | JObject "(string \<times> jsval) list"

fun typeof_object :: "jsval \<Rightarrow> bool" where
  "typeof_object JNull = True"
| "typeof_object (JObject _) = True"
| "typeof_object _ = False"

fun typeof_string :: "jsval \<Rightarrow> bool" where
  "typeof_string (JString _) = True"
| "typeof_string _ = False"

text \<open>\<open>k in v\<close> and \<open>v.k\<close>; both are only evaluated on non-null objects.\<close>

fun has_prop :: "string \<Rightarrow> jsval \<Rightarrow> bool" where
  "has_prop k (JObject ps) = (k \<in> set (map fst ps))"
| "has_prop k _ = False"

fun get_prop :: "string \<Rightarrow> jsval \<Rightarrow> jsval" where
  "get_prop k (JObject ps) = (case map_of ps k of Some v \<Rightarrow> v | None \<Rightarrow> JUndefined)"
| "get_prop k _ = JUndefined"

text \<open>Truthiness, as tested by \<open>!v\<close> and \<open>v || d\<close>.\<close>

fun falsy :: "jsval \<Rightarrow> bool" where
  "falsy JUndefined = True"
| "falsy JNull = True"
| "falsy (JBool b) = (\<not> b)"
| "falsy (JNumber x) = (x = NaN \<or> x = Fin 0)"
| "falsy (JString s) = (s = [])"
| "falsy (JObject _) = False"

text \<open>The predicate passed to \<open>linkedAccounts.find\<close> in aptos-hooks.ts and in the
  pages.\<close>

definition isAptosTagged :: "jsval \<Rightarrow> bool" where
  "isAptosTagged account =
     (typeof_object account \<and> account \<noteq> JNull \<and> has_prop ''chainType'' account
      \<and> get_prop ''chainType'' account = JString ''aptos'')"

text \<open>The type guard \<open>isAptosAccount\<close> of the pages.\<close>

definition isAptosAccount :: "jsval \<Rightarrow> bool" where
  "isAptosAccount account =
     (typeof_object account \<and> account \<noteq> JNull
      \<and> has_prop ''chainType'' account \<and> get_prop ''chainType'' account = JString ''aptos''
      \<and> has_prop ''address'' account \<and> typeof_string (get_prop ''address'' account)
      \<and> has_prop ''publicKey'' account \<and> typeof_string (get_prop ''publicKey'' account))"

record privy_user =
  linkedAccounts :: "jsval list option"

record AptosWallet =
  address :: jsval
  publicKey :: jsval

text \<open>
  \<open>useAptosWallet\<close> (aptos-hooks.ts): the first tagged record, its two fields read
  through unchecked casts, so each is whatever the record holds, \<open>undefined\<close> when
  the property is missing.
\<close>

definition useAptosWallet :: "privy_user option \<Rightarrow> AptosWallet option" where
  "useAptosWallet user =
     (case user of
        None \<Rightarrow> None
      | Some u \<Rightarrow>
          (case linkedAccounts u of
             None \<Rightarrow> None
           | Some accounts \<Rightarrow>
               (case find isAptosTagged accounts of
                  Some aptosWallet \<Rightarrow>
                    Some \<lparr>address = get_prop ''address'' aptosWallet,
                          publicKey = get_prop ''publicKey'' aptosWallet\<rparr>
                | None \<Rightarrow> None)))"

text \<open>
  The lookup written out in the pages:
  \<open>foundAccount = user.linkedAccounts?.find(...)\<close>, then
  \<open>foundAccount && isAptosAccount(foundAccount) ? foundAccount : undefined\<close>.
\<close>

definition foundAccount :: "privy_user \<Rightarrow> jsval option" where
  "foundAccount u =
     (case linkedAccounts u of None \<Rightarrow> None | Some accounts \<Rightarrow> find isAptosTagged accounts)"

definition inlineAptosWallet :: "privy_user \<Rightarrow> AptosWallet option" where
  "inlineAptosWallet u =
     (case foundAccount u of
        None \<Rightarrow> None
      | Some a \<Rightarrow>
          if isAptosAccount a
          then Some \<lparr>address = get_prop ''address'' a, publicKey = get_prop ''publicKey'' a\<rparr>
          else None)"

text \<open>A resolved pair is fully populated when both fields are strings.\<close>

definition fully_populated :: "AptosWallet \<Rightarrow> bool" where
  "fully_populated w = (typeof_string (address w) \<and> typeof_string (publicKey w))"

section \<open>External collaborators and page state\<close>

datatype rawtxn = RawTransaction nat

datatype authenticator = AccountAuthenticatorEd25519 string string

datatype fnarg = ArgNumber int | ArgString string | ArgAddress string | ArgBigInt int

text \<open>The awaited calls: to the chain client and to the remote signer.\<close>

datatype call =
    CallBuild string string "string list" "fnarg list"
  | CallSign jsval string string
  | CallSubmit rawtxn authenticator
  | CallWait string
  | CallView string
  | CallBalance jsval

text \<open>
  What the collaborators answer. The SDK and the identity provider are not part of
  the repository, so their results are parameters: each call either throws or
  returns. \<open>view\<close> and \<open>getAccountAPTAmount\<close> read chain state that changes over
  time, so they are indexed by the number of the read.
\<close>

record world =
  accountAddressFrom :: "jsval \<Rightarrow> js_error + string"
  buildSimple :: "string \<Rightarrow> string \<Rightarrow> string list \<Rightarrow> fnarg list \<Rightarrow> js_error + rawtxn"
  signingMessageHex :: "rawtxn \<Rightarrow> string"
  signRawHash :: "jsval \<Rightarrow> string \<Rightarrow> string \<Rightarrow> js_error + string"
  ed25519Check :: "string \<Rightarrow> string \<Rightarrow> js_error option"
  submitSimple :: "rawtxn \<Rightarrow> authenticator \<Rightarrow> js_error + string"
  waitForTransaction :: "string \<Rightarrow> js_error + string"
  view :: "nat \<Rightarrow> js_error + string"
  getAccountAPTAmount :: "nat \<Rightarrow> jsval \<Rightarrow> js_error + nat"

text \<open>
  Status lines. Those the source writes in ASCII are kept as text; the ones with
  pictographs or an interpolated number are constructors:
  \<open>YouWon x\<close> is "YOU WON! You took x APT!", \<open>YouLost\<close> is
  "You lost. Your 0.01 APT is now in the pot.", \<open>Jackpot\<close> is
  "YOU WON THE JACKPOT!", \<open>TxSuccessful h\<close> is "Transaction successful! Hash: h" and
  \<open>TxFailed m\<close> is the Movement page's "Error: m".
\<close>

datatype status =
    Msg string
  | YouWon jsnum
  | YouLost
  | Jackpot
  | TxSuccessful string
  | TxFailed string

datatype game_result = Win | Lose

text \<open>
  The \<open>useState\<close> variables of the two pages: \<open>Home\<close> (page.tsx) uses
  \<open>choice\<close>, \<open>potBalance\<close> and \<open>lastResult\<close>, \<open>MovementTxPage\<close> uses
  \<open>recipientAddress\<close>, \<open>amount\<close>, \<open>walletBalance\<close> and \<open>addressError\<close>, both
  use the rest.
\<close>

record page_state =
  choice :: int
  potBalance :: string
  isLoading :: bool
  txStatus :: status
  lastResult :: "game_result option"
  txHash :: string
  recipientAddress :: string
  amount :: string
  walletBalance :: string
  addressError :: string

text \<open>
  A run is the state on display together with the awaited calls made so far, each
  with the state that was on display while it was pending. An action either throws
  or returns.
\<close>

type_synonym 'u run = "'u \<times> (call \<times> 'u) list"

type_synonym ('u, 'a) act = "'u run \<Rightarrow> (js_error + 'a) \<times> 'u run"

definition andThen :: "('u, 'a) act \<Rightarrow> ('a \<Rightarrow> ('u, 'b) act) \<Rightarrow> ('u, 'b) act" where
  "andThen m f s = (case m s of (Inl e, s') \<Rightarrow> (Inl e, s') | (Inr a, s') \<Rightarrow> f a s')"

definition done_act :: "('u, unit) act" where
  "done_act s = (Inr (), s)"

definition setState :: "('u \<Rightarrow> 'u) \<Rightarrow> ('u, unit) act" where
  "setState f s = (Inr (), (f (fst s), snd s))"

definition local :: "js_error + 'a \<Rightarrow> ('u, 'a) act" where
  "local r s = (r, s)"

definition await :: "call \<Rightarrow> js_error + 'a \<Rightarrow> ('u, 'a) act" where
  "await c r s = (r, (fst s, snd s @ [(c, fst s)]))"

definition calls :: "'u run \<Rightarrow> call list" where
  "calls s = map fst (snd s)"

definition tryCatch :: "('u, 'a) act \<Rightarrow> (js_error \<Rightarrow> ('u, 'a) act) \<Rightarrow> ('u, 'a) act" where
  "tryCatch m h s = (case m s of (Inl e, s') \<Rightarrow> h e s' | (Inr a, s') \<Rightarrow> (Inr a, s'))"

subsection \<open>The collaborators' operations as actions\<close>

definition aptos_build ::
  "world \<Rightarrow> string \<Rightarrow> string \<Rightarrow> string list \<Rightarrow> fnarg list \<Rightarrow> ('u, rawtxn) act" where
  "aptos_build w sender fn tys args =
     await (CallBuild sender fn tys args) (buildSimple w sender fn tys args)"

definition privy_sign :: "world \<Rightarrow> jsval \<Rightarrow> string \<Rightarrow> string \<Rightarrow> ('u, string) act" where
  "privy_sign w addr chainType hash =
     await (CallSign addr chainType hash) (signRawHash w addr chainType hash)"

text \<open>\<open>new AccountAuthenticatorEd25519(new Ed25519PublicKey(pk), new Ed25519Signature(sg))\<close>:
  local constructors of the SDK, which may reject their input.\<close>

definition new_authenticator :: "world \<Rightarrow> string \<Rightarrow> string \<Rightarrow> ('u, authenticator) act" where
  "new_authenticator w pk sg =
     local (case ed25519Check w pk sg of
              Some e \<Rightarrow> Inl e
            | None \<Rightarrow> Inr (AccountAuthenticatorEd25519 pk sg))"

definition aptos_submit :: "world \<Rightarrow> rawtxn \<Rightarrow> authenticator \<Rightarrow> ('u, string) act" where
  "aptos_submit w txn auth = await (CallSubmit txn auth) (submitSimple w txn auth)"

definition aptos_wait :: "world \<Rightarrow> string \<Rightarrow> ('u, string) act" where
  "aptos_wait w h = await (CallWait h) (waitForTransaction w h)"

definition aptos_view :: "world \<Rightarrow> nat \<Rightarrow> string \<Rightarrow> ('u, string) act" where
  "aptos_view w k fn = await (CallView fn) (view w k)"

definition aptos_balance :: "world \<Rightarrow> nat \<Rightarrow> jsval \<Rightarrow> ('u, nat) act" where
  "aptos_balance w k addr = await (CallBalance addr) (getAccountAPTAmount w k addr)"

section \<open>page.tsx: the coin-flip page\<close>

definition CONTRACT_ADDRESS :: string where
  "CONTRACT_ADDRESS = ''0x10bcbbc693740204b97bff6a76c344a9aed7f8c1bbd2b2482b9a0fd947b2b55e''"

definition BET_AMOUNT :: rat where
  "BET_AMOUNT = 1000000"

definition get_pot_balance :: string where
  "get_pot_balance = CONTRACT_ADDRESS @ ''::coin_flip::get_pot_balance''"

text \<open>\<open>fetchPotBalance\<close>: the \<open>k\<close>-th read of the pot; a failed read is logged to the
  console and nothing is published.\<close>

definition fetchPotBalance :: "world \<Rightarrow> nat \<Rightarrow> (page_state, unit) act" where
  "fetchPotBalance w k =
     tryCatch
       (andThen (aptos_view w k get_pot_balance)
          (\<lambda>result. setState (\<lambda>u. u\<lparr>potBalance := result\<rparr>)))
       (\<lambda>error. done_act)"

text \<open>The comparison of the pot after the play with the pot before it.\<close>

definition inferResult :: "string \<Rightarrow> string \<Rightarrow> page_state \<Rightarrow> page_state" where
  "inferResult potAfterValue potBefore u =
     (if js_eq (parseInt potAfterValue) (Fin 0) \<and> js_gt (parseInt potBefore) (Fin 0)
      then u\<lparr>lastResult := Some Win,
             txStatus := YouWon (js_div (js_add (parseInt potBefore) BET_AMOUNT) 100000000)\<rparr>
      else if js_gt (parseInt potAfterValue) (parseInt potBefore)
      then u\<lparr>lastResult := Some Lose, txStatus := YouLost\<rparr>
      else u\<lparr>lastResult := Some Win, txStatus := Jackpot\<rparr>)"

text \<open>The body of the \<open>try\<close> block of \<open>handlePlay\<close>; \<open>k\<close> numbers its first read of
  the pot.\<close>

definition handlePlay_try ::
  "world \<Rightarrow> nat \<Rightarrow> string \<Rightarrow> string \<Rightarrow> string \<Rightarrow> int \<Rightarrow> (page_state, unit) act" where
  "handlePlay_try w k walletAddress publicKeyHex potBefore ch =
     (case cleanPublicKey publicKeyHex of
        Inl _ \<Rightarrow>
          setState (\<lambda>u. u\<lparr>txStatus := Msg ''Invalid public key format'', isLoading := False\<rparr>)
      | Inr publicKeyHex' \<Rightarrow>
          andThen (local (accountAddressFrom w (JString walletAddress))) (\<lambda>addr.
          andThen (aptos_build w addr (CONTRACT_ADDRESS @ ''::coin_flip::play'') []
                     [ArgNumber ch, ArgString CONTRACT_ADDRESS]) (\<lambda>rawTxn.
          andThen (privy_sign w (JString walletAddress) ''aptos'' (signingMessageHex w rawTxn))
            (\<lambda>rawSignature.
          andThen (new_authenticator w publicKeyHex' (slice2 rawSignature))
            (\<lambda>senderAuthenticator.
          andThen (aptos_submit w rawTxn senderAuthenticator) (\<lambda>pending_hash.
          andThen (aptos_wait w pending_hash) (\<lambda>_.
          andThen (setState (\<lambda>u. u\<lparr>txHash := pending_hash\<rparr>)) (\<lambda>_.
          andThen (fetchPotBalance w k) (\<lambda>_.
          andThen (aptos_view w (Suc k) get_pot_balance) (\<lambda>potAfterValue.
          setState (inferResult potAfterValue potBefore)))))))))))"

text \<open>The string held by a field that the type guard has checked.\<close>

fun string_of :: "jsval \<Rightarrow> string" where
  "string_of (JString s) = s"
| "string_of _ = []"

definition handlePlay ::
  "world \<Rightarrow> nat \<Rightarrow> bool \<Rightarrow> privy_user option \<Rightarrow> page_state run \<Rightarrow> page_state run" where
  "handlePlay w k authenticated user s =
     (if authenticated \<and> user \<noteq> None
      then
          (case inlineAptosWallet (the user) of
             None \<Rightarrow>
               snd (setState (\<lambda>u. u\<lparr>txStatus := Msg ''Please create an Aptos wallet first''\<rparr>) s)
           | Some aptosWallet \<Rightarrow>
               let walletAddress = string_of (address aptosWallet);
                   publicKeyHex = string_of (publicKey aptosWallet)
               in if walletAddress = [] \<or> publicKeyHex = []
                  then snd (setState (\<lambda>u. u\<lparr>txStatus := Msg ''Wallet not properly configured''\<rparr>) s)
                  else
                    let s1 = snd (setState (\<lambda>u. u\<lparr>isLoading := True, lastResult := None\<rparr>) s);
                        body = tryCatch
                                 (handlePlay_try w k walletAddress publicKeyHex
                                    (potBalance (fst s)) (choice (fst s)))
                                 (\<lambda>error. setState (\<lambda>u. u\<lparr>txStatus :=
                                              Msg (''Error: '' @ getErrorMessage error),
                                            lastResult := None\<rparr>));
                        s2 = snd (body s1)
                    in snd (setState (\<lambda>u. u\<lparr>isLoading := False\<rparr>) s2))
      else snd (setState (\<lambda>u. u\<lparr>txStatus := Msg ''Please connect your wallet first''\<rparr>) s))"

text \<open>The polling effect of the page: one read at once and one at every tick of the
  5-second timer; \<open>n\<close> reads in all, numbered from \<open>k\<close>. A rejection that a read does
  not catch is collected; the timer goes on.\<close>

fun interval_polls ::
  "(nat \<Rightarrow> ('u, unit) act) \<Rightarrow> nat \<Rightarrow> nat \<Rightarrow> 'u run \<Rightarrow> js_error list \<times> 'u run" where
  "interval_polls poll k 0 s = ([], s)"
| "interval_polls poll k (Suc n) s =
     (case poll k s of
        (Inl e, s') \<Rightarrow> (case interval_polls poll (Suc k) n s' of (es, s'') \<Rightarrow> (e # es, s''))
      | (Inr _, s') \<Rightarrow> interval_polls poll (Suc k) n s')"

section \<open>aptos-hooks.ts: the balance hook\<close>

record balance_state =
  balance :: jsnum
  loading :: bool
  error :: "string option"

fun errorMessageOr :: "js_error \<Rightarrow> string \<Rightarrow> string" where
  "errorMessageOr (ErrorObj m) d = m"
| "errorMessageOr _ d = d"

definition fetchBalance :: "world \<Rightarrow> AptosWallet option \<Rightarrow> nat \<Rightarrow> (balance_state, unit) act" where
  "fetchBalance w wallet k =
     (case (case wallet of None \<Rightarrow> None
            | Some wl \<Rightarrow> if falsy (address wl) then None else Some (address wl)) of
        None \<Rightarrow> setState (\<lambda>u. u\<lparr>balance := Fin 0\<rparr>)
      | Some walletAddress \<Rightarrow>
          andThen (setState (\<lambda>u. u\<lparr>loading := True, error := None\<rparr>)) (\<lambda>_.
          andThen
            (tryCatch
               (andThen (local (accountAddressFrom w walletAddress)) (\<lambda>accountAddress.
                andThen (aptos_balance w k (JString accountAddress)) (\<lambda>balanceOctas.
                setState (\<lambda>u. u\<lparr>balance := octasToAPT (OStr (show_nat balanceOctas))\<rparr>))))
               (\<lambda>err. setState (\<lambda>u. u\<lparr>error := Some (errorMessageOr err ''Failed to fetch balance'')\<rparr>)))
            (\<lambda>_. setState (\<lambda>u. u\<lparr>loading := False\<rparr>))))"

section \<open>The Movement transfer page\<close>

definition trim :: "string \<Rightarrow> string" where
  "trim s = rev (dropWhile is_ws (rev (dropWhile is_ws s)))"

text \<open>\<open>fetchWalletBalance\<close>: a failed read publishes \<open>"0"\<close>.\<close>

definition fetchWalletBalance :: "world \<Rightarrow> nat \<Rightarrow> jsval \<Rightarrow> (page_state, unit) act" where
  "fetchWalletBalance w k addr =
     tryCatch
       (andThen (aptos_balance w k addr)
          (\<lambda>result. setState (\<lambda>u. u\<lparr>walletBalance := show_nat result\<rparr>)))
       (\<lambda>error. setState (\<lambda>u. u\<lparr>walletBalance := ''0''\<rparr>))"

text \<open>\<open>cleanPublicKey\<close> applied to a value that the hook passed on unchecked: on
  anything but a string, \<open>cleaned.toLowerCase\<close> is not a function.\<close>

fun cleanPublicKey_value :: "jsval \<Rightarrow> js_error + string" where
  "cleanPublicKey_value (JString s) = cleanPublicKey s"
| "cleanPublicKey_value _ = Inl (ErrorObj ''cleaned.toLowerCase is not a function'')"

text \<open>\<open>parseFloat(amount) || 0\<close>.\<close>

definition or_zero :: "jsnum \<Rightarrow> jsnum" where
  "or_zero x = (if x = NaN \<or> x = Fin 0 then Fin 0 else x)"

definition handleTransaction_try ::
  "world \<Rightarrow> nat \<Rightarrow> jsval \<Rightarrow> jsval \<Rightarrow> string \<Rightarrow> string \<Rightarrow> (page_state, unit) act" where
  "handleTransaction_try w k walletAddress publicKeyHex recipient amt =
     (case cleanPublicKey_value publicKeyHex of
        Inl _ \<Rightarrow>
          setState (\<lambda>u. u\<lparr>txStatus := Msg ''Invalid public key format'', isLoading := False\<rparr>)
      | Inr publicKeyHex' \<Rightarrow>
          andThen (local (accountAddressFrom w walletAddress)) (\<lambda>addr.
          andThen (local (accountAddressFrom w (JString recipient))) (\<lambda>recipientAddr.
          andThen (local (aptToOctas (or_zero (parseFloat amt)))) (\<lambda>amountInOctas.
          andThen (aptos_build w addr ''0x1::coin::transfer'' [''0x1::aptos_coin::AptosCoin'']
                     [ArgAddress recipientAddr, ArgBigInt amountInOctas]) (\<lambda>rawTxn.
          andThen (privy_sign w walletAddress ''aptos'' (signingMessageHex w rawTxn))
            (\<lambda>rawSignature.
          andThen (new_authenticator w publicKeyHex' (slice2 rawSignature))
            (\<lambda>senderAuthenticator.
          andThen (aptos_submit w rawTxn senderAuthenticator) (\<lambda>pending_hash.
          andThen (setState (\<lambda>u. u\<lparr>txHash := pending_hash,
                       txStatus := Msg ''Transaction submitted! Waiting for confirmation...''\<rparr>))
            (\<lambda>_.
          andThen (aptos_wait w pending_hash) (\<lambda>executed_hash.
          andThen (setState (\<lambda>u. u\<lparr>txStatus := TxSuccessful executed_hash\<rparr>)) (\<lambda>_.
          fetchWalletBalance w k walletAddress)))))))))))"

definition handleTransaction ::
  "world \<Rightarrow> nat \<Rightarrow> bool \<Rightarrow> privy_user option \<Rightarrow> page_state run \<Rightarrow> page_state run" where
  "handleTransaction w k authenticated user s =
     (if authenticated \<and> user \<noteq> None
      then case useAptosWallet user of
        None \<Rightarrow> snd (setState (\<lambda>u. u\<lparr>txStatus := Msg ''Please create a Move wallet first''\<rparr>) s)
      | Some moveWallet \<Rightarrow>
          let recipient = trim (recipientAddress (fst s))
          in if recipient = []
             then snd (setState (\<lambda>u. u\<lparr>txStatus := Msg ''Please enter a recipient address'',
                                       addressError := ''Recipient address is required''\<rparr>) s)
             else if isValidAddress (\<lambda>a. accountAddressFrom w (JString a)) recipient \<noteq> Inr True
             then snd (setState (\<lambda>u. u\<lparr>txStatus := Msg ''Invalid recipient address format'',
                                       addressError := ''Please enter a valid Aptos address''\<rparr>) s)
             else
               let s0 = snd (setState (\<lambda>u. u\<lparr>addressError := []\<rparr>) s);
                   walletAddress = address moveWallet;
                   publicKeyHex = publicKey moveWallet
               in if falsy walletAddress \<or> falsy publicKeyHex
                  then snd (setState (\<lambda>u. u\<lparr>txStatus := Msg ''Wallet not properly configured''\<rparr>) s0)
                  else
                    let s1 = snd (setState (\<lambda>u. u\<lparr>isLoading := True, txStatus := Msg []\<rparr>) s0);
                        body = tryCatch
                                 (handleTransaction_try w k walletAddress publicKeyHex recipient
                                    (amount (fst s)))
                                 (\<lambda>error. setState (\<lambda>u. u\<lparr>txStatus :=
                                              TxFailed (getErrorMessage error)\<rparr>));
                        s2 = snd (body s1)
                    in snd (setState (\<lambda>u. u\<lparr>isLoading := False\<rparr>) s2)
      else snd (setState (\<lambda>u. u\<lparr>txStatus := Msg ''Please connect your wallet first''\<rparr>) s))"

section \<open>Derived notions used in the statements\<close>

text \<open>Applying \<open>cleanPublicKey\<close> to its own result.\<close>

definition cleanPublicKey_twice :: "string \<Rightarrow> js_error + string" where
  "cleanPublicKey_twice k = (case cleanPublicKey k of Inl e \<Rightarrow> Inl e | Inr r \<Rightarrow> cleanPublicKey r)"

text \<open>The key after the two stripping steps of \<open>cleanPublicKey\<close>, before its length
  check.\<close>

definition normalized_key :: "string \<Rightarrow> string" where
  "normalized_key k =
     (let c = (if startsWith (toLowerCase k) ''0x'' then slice2 k else k)
      in if length c = 66 \<and> startsWith c ''00'' then substring2 c else c)"




section \<open>Sample collaborators and inputs\<close>

text \<open>A chain client that accepts every request, a signer that answers with a
  prefixed signature, an empty pot, and a fresh page.\<close>

definition sample_world :: world where
  "sample_world =
     \<lparr>accountAddressFrom =
        (\<lambda>v. case v of JString a \<Rightarrow> Inr a | _ \<Rightarrow> Inl (ErrorObj ''Invalid address'')),
      buildSimple = (\<lambda>sender fn tys args. Inr (RawTransaction 7)),
      signingMessageHex = (\<lambda>txn. ''0xb5e9''),
      signRawHash = (\<lambda>addr chainType hash. Inr ''0x51c4''),
      ed25519Check = (\<lambda>pk sg. None),
      submitSimple = (\<lambda>txn auth. Inr ''0xHASH''),
      waitForTransaction = (\<lambda>h. Inr h),
      view = (\<lambda>k. Inr ''0''),
      getAccountAPTAmount = (\<lambda>k addr. Inr 250000000)\<rparr>"

definition sample_page :: page_state where
  "sample_page =
     \<lparr>choice = 0, potBalance = ''0'', isLoading = False, txStatus = Msg [],
      lastResult = None, txHash = [], recipientAddress = [], amount = ''1'',
      walletBalance = ''0'', addressError = []\<rparr>"

definition sample_user :: "string \<Rightarrow> string \<Rightarrow> privy_user" where
  "sample_user a k =
     \<lparr>linkedAccounts =
        Some [JObject [(''type'', JString ''email'')],
              JObject [(''type'', JString ''wallet''), (''chainType'', JString ''aptos''),
                       (''address'', JString a), (''publicKey'', JString k)]]\<rparr>"

definition sample_key :: string where
  "sample_key = ''8f3a'' @ replicate 60 (CHR ''b'')"

text \<open>A chain whose reads fail.\<close>

definition failing_world :: world where
  "failing_world =
     sample_world\<lparr>view := (\<lambda>k. Inl (ErrorObj ''Network Error'')),
                  getAccountAPTAmount := (\<lambda>k addr. Inl (ErrorObj ''Network Error''))\<rparr>"

text \<open>A signer that answers without the \<open>0x\<close> prefix.\<close>

definition bare_signer_world :: world where
  "bare_signer_world = sample_world\<lparr>signRawHash := (\<lambda>addr chainType hash. Inr ''51c4'')\<rparr>"

text \<open>A chain whose first read fails and whose later reads succeed.\<close>

definition flaky_world :: world where
  "flaky_world =
     sample_world\<lparr>view := (\<lambda>k. if k = 0 then Inl (ErrorObj ''Network Error'') else Inr ''3000000''),
                  getAccountAPTAmount :=
                    (\<lambda>k addr. if k = 0 then Inl (ErrorObj ''Network Error'') else Inr 250000000)\<rparr>"

definition sample_balance :: balance_state where
  "sample_balance = \<lparr>balance = Fin 0, loading = False, error = None\<rparr>"



section \<open>Facts about the building blocks\<close>

lemmas act_defs = andThen_def setState_def await_def local_def tryCatch_def done_act_def
  aptos_build_def privy_sign_def new_authenticator_def aptos_submit_def aptos_wait_def
  aptos_view_def aptos_balance_def

lemma toLowerChar_x: "toLowerChar c = CHR ''x'' \<longleftrightarrow> c = CHR ''x'' \<or> c = CHR ''X''"
  by (auto simp: toLowerChar_def split: if_splits)

lemma toLowerChar_zero: "toLowerChar c = CHR ''0'' \<longleftrightarrow> c = CHR ''0''"
  by (auto simp: toLowerChar_def split: if_splits)

lemma startsWith_0x_iff:
  "startsWith (toLowerCase s) ''0x'' \<longleftrightarrow>
     (\<exists>c r. s = CHR ''0'' # c # r \<and> (c = CHR ''x'' \<or> c = CHR ''X''))"
proof (cases s)
  case Nil
  then show ?thesis by (simp add: startsWith_def toLowerCase_def)
next
  case (Cons a t)
  then show ?thesis
    by (cases t) (auto simp: startsWith_def toLowerCase_def toLowerChar_x toLowerChar_zero)
qed

lemma hex_no_0x: "is_hex s \<Longrightarrow> \<not> startsWith (toLowerCase s) ''0x''"
  unfolding startsWith_0x_iff by (auto simp: is_hex_def is_hex_char_def)

lemma cleanPublicKey_length: "cleanPublicKey k = Inr r \<Longrightarrow> length r = 64"
  by (auto simp: cleanPublicKey_def Let_def split: if_splits)

lemma cleanPublicKey_fixed:
  "length r = 64 \<Longrightarrow> \<not> startsWith (toLowerCase r) ''0x'' \<Longrightarrow> cleanPublicKey r = Inr r"
  by (simp add: cleanPublicKey_def Let_def)

lemma cleanPublicKey_66:
  assumes "length k = 66" and "startsWith k ''00''"
  shows "cleanPublicKey k = Inr (drop 2 k)"
proof -
  from assms(2) have "\<not> startsWith (toLowerCase k) ''0x''"
    unfolding startsWith_0x_iff by (auto simp: startsWith_def)
  with assms show ?thesis
    by (simp add: cleanPublicKey_def Let_def substring2_def)
qed

lemma fetchWalletBalance_error:
  "getAccountAPTAmount w k a = Inl e \<Longrightarrow>
     fetchWalletBalance w k a s =
       (Inr (), (fst s\<lparr>walletBalance := ''0''\<rparr>, snd s @ [(CallBalance a, fst s)]))"
  by (simp add: fetchWalletBalance_def act_defs)

lemma fetchWalletBalance_ok:
  "getAccountAPTAmount w k a = Inr v \<Longrightarrow>
     fetchWalletBalance w k a s =
       (Inr (), (fst s\<lparr>walletBalance := show_nat v\<rparr>, snd s @ [(CallBalance a, fst s)]))"
  by (simp add: fetchWalletBalance_def act_defs)

lemma fetchPotBalance_error:
  "view w k = Inl e \<Longrightarrow>
     fetchPotBalance w k s = (Inr (), (fst s, snd s @ [(CallView get_pot_balance, fst s)]))"
  by (simp add: fetchPotBalance_def act_defs)

lemma fetchPotBalance_ok:
  "view w k = Inr v \<Longrightarrow>
     fetchPotBalance w k s =
       (Inr (), (fst s\<lparr>potBalance := v\<rparr>, snd s @ [(CallView get_pot_balance, fst s)]))"
  by (simp add: fetchPotBalance_def act_defs)

lemma inlineAptosWallet_fail_closed: "inlineAptosWallet u = Some w \<Longrightarrow> fully_populated w"
  by (auto simp: inlineAptosWallet_def fully_populated_def isAptosAccount_def
      split: option.splits if_splits)

subsection \<open>The rounding function\<close>

text \<open>
  \<open>ilog2\<close> is the binary exponent, \<open>round_even\<close> is within one half of its
  argument, and a finite result of \<open>rnd\<close> is a significand of at most 53 bits times
  a power of two and lies within half a unit in the last place of the exact value.
\<close>

lemma pow2_powi: "pow2 e = 2 powi e"
proof (cases "0 \<le> e")
  case True
  then show ?thesis by (simp add: pow2_def power_int_def)
next
  case False
  have "inverse (2::rat) ^ nat (- e) = 1 / 2 ^ nat (- e)"
    by (simp only: inverse_eq_divide power_one_over)
  with False show ?thesis by (simp only: pow2_def power_int_def if_False)
qed

lemma bitlen_powi:
  assumes "0 < (n::int)"
  shows "(2::rat) powi (bitlen n - 1) \<le> of_int n" and "of_int n < (2::rat) powi bitlen n"
proof -
  from assms have b: "2 ^ nat (bitlen n - 1) \<le> n" "n < 2 ^ nat (bitlen n)"
    using bitlen_bounds by auto
  from assms have pos: "0 < bitlen n" using bitlen_nonneg [of n] b(2)
    by (cases "bitlen n = 0") auto
  from b(1) have "(of_int (2 ^ nat (bitlen n - 1)) :: rat) \<le> of_int n"
    by (simp only: of_int_le_iff)
  with pos show "(2::rat) powi (bitlen n - 1) \<le> of_int n"
    by (simp add: power_int_def)
  from b(2) have "(of_int n :: rat) < of_int (2 ^ nat (bitlen n))"
    by (simp only: of_int_less_iff)
  with pos show "of_int n < (2::rat) powi bitlen n"
    by (simp add: power_int_def)
qed

lemma round_even_near: "\<bar>of_int (round_even q) - q\<bar> \<le> 1 / 2"
proof -
  have fl: "of_int \<lfloor>q\<rfloor> \<le> q" "q < of_int \<lfloor>q\<rfloor> + 1" by linarith+
  show ?thesis
    unfolding round_even_def Let_def using fl
    by (simp add: abs_if split: if_splits) linarith
qed

lemma ilog2_bounds:
  assumes "0 < a"
  shows "pow2 (ilog2 a) \<le> a" and "a < pow2 (ilog2 a + 1)"
proof -
  obtain n d where q: "quotient_of a = (n, d)" by (cases "quotient_of a")
  then have d: "0 < d" and a: "a = of_int n / of_int d"
    using quotient_of_denom_pos quotient_of_div by auto
  have dpos: "(0::rat) < of_int d" using d by simp
  with assms a have n: "0 < n" by (simp add: zero_less_divide_iff)
  define k where "k = bitlen n - bitlen d"
  have il: "ilog2 a = (if pow2 k \<le> a then k else k - 1)"
    by (simp add: ilog2_def q k_def Let_def)
  have p2: "\<And>i. (0::rat) < 2 powi i" by simp
  have lo: "(2::rat) powi (k - 1) < a"
  proof -
    have "(2::rat) powi (k - 1) = 2 powi (bitlen n - 1) / 2 powi bitlen d"
      by (simp add: k_def power_int_diff)
    also have "\<dots> \<le> of_int n / 2 powi bitlen d"
      using bitlen_powi(1) [OF n] p2 [of "bitlen d"] by (simp add: divide_right_mono)
    also have "\<dots> < of_int n / of_int d"
      using bitlen_powi(2) [OF d] n dpos
      by (intro divide_strict_left_mono) simp_all
    finally show ?thesis using a by simp
  qed
  have hi: "a < (2::rat) powi (k + 1)"
  proof -
    have "a = of_int n / of_int d" by (rule a)
    also have "\<dots> < 2 powi bitlen n / of_int d"
      using bitlen_powi(2) [OF n] dpos by (simp add: divide_strict_right_mono)
    also have "\<dots> \<le> 2 powi bitlen n / 2 powi (bitlen d - 1)"
      using bitlen_powi(1) [OF d] p2 [of "bitlen d - 1"] p2 [of "bitlen n"] dpos
      by (intro divide_left_mono) (simp_all add: mult_pos_pos)
    also have "\<dots> = 2 powi (k + 1)"
      by (simp add: k_def power_int_diff power_int_add)
    finally show ?thesis .
  qed
  show "pow2 (ilog2 a) \<le> a"
    using lo by (auto simp: il pow2_powi)
  show "a < pow2 (ilog2 a + 1)"
    using hi by (auto simp: il pow2_powi)
qed

lemma pow2_pos: "0 < pow2 e"
  by (simp add: pow2_powi)

lemma rnd_half_ulp:
  assumes "rnd q = Fin v"
  shows "\<bar>v - q\<bar> \<le> pow2 (max (ilog2 \<bar>q\<bar> - 52) (- 1074)) / 2"
proof (cases "q = 0")
  case True
  with assms have "v = 0" by (simp add: rnd_def)
  with True show ?thesis using pow2_pos [of "max (ilog2 \<bar>q\<bar> - 52) (- 1074)"] by simp
next
  case False
  define p where "p = max (ilog2 \<bar>q\<bar> - 52) (- 1074)"
  define m where "m = round_even (\<bar>q\<bar> / pow2 p)"
  have pp: "0 < pow2 p" by (rule pow2_pos)
  from assms False have v: "v = (if 0 < q then of_int m * pow2 p else - (of_int m * pow2 p))"
    by (simp add: rnd_def Let_def p_def m_def split: if_splits)
  have "\<bar>of_int m - \<bar>q\<bar> / pow2 p\<bar> \<le> 1 / 2"
    unfolding m_def by (rule round_even_near)
  then have "\<bar>of_int m - \<bar>q\<bar> / pow2 p\<bar> * pow2 p \<le> 1 / 2 * pow2 p"
    using pp by (intro mult_right_mono) simp_all
  moreover have "\<bar>of_int m - \<bar>q\<bar> / pow2 p\<bar> * pow2 p = \<bar>of_int m * pow2 p - \<bar>q\<bar>\<bar>"
  proof -
    have "\<bar>of_int m - \<bar>q\<bar> / pow2 p\<bar> * pow2 p = \<bar>(of_int m - \<bar>q\<bar> / pow2 p) * pow2 p\<bar>"
      using pp by (simp only: abs_mult abs_of_pos)
    also have "(of_int m - \<bar>q\<bar> / pow2 p) * pow2 p = of_int m * pow2 p - \<bar>q\<bar>"
      using pp by (simp add: left_diff_distrib)
    finally show ?thesis .
  qed
  ultimately have near: "\<bar>of_int m * pow2 p - \<bar>q\<bar>\<bar> \<le> pow2 p / 2" by simp
  show ?thesis
  proof (cases "0 < q")
    case True
    with near v show ?thesis by (simp add: p_def)
  next
    case neg: False
    with False have "q < 0" by simp
    with near v have "\<bar>- v + q\<bar> \<le> pow2 p / 2" by simp
    then show ?thesis by (simp add: p_def abs_minus_commute [of v q] del: abs_minus_commute)
  qed
qed

lemma rnd_significand:
  assumes "0 < a"
  shows "0 \<le> round_even (a / pow2 (max (ilog2 a - 52) (- 1074)))"
    and "round_even (a / pow2 (max (ilog2 a - 52) (- 1074))) \<le> 2 ^ 53"
proof -
  define p where "p = max (ilog2 a - 52) (- 1074)"
  have pp: "(0::rat) < 2 powi p" by simp
  have "a < 2 powi (ilog2 a + 1)" using ilog2_bounds(2) [OF assms] by (simp add: pow2_powi)
  also have "\<dots> \<le> 2 powi (p + 53)" by (intro power_int_increasing) (simp_all add: p_def)
  finally have "a / 2 powi p < 2 powi (p + 53) / 2 powi p"
    using pp by (simp add: divide_strict_right_mono)
  then have lt: "a / pow2 p < 2 ^ 53" by (simp add: power_int_add pow2_powi)
  have ge: "0 \<le> a / pow2 p" using assms pow2_pos [of p] by simp
  from lt have "\<lfloor>a / pow2 p\<rfloor> < 2 ^ 53" by (simp add: floor_less_iff)
  moreover from ge have "0 \<le> \<lfloor>a / pow2 p\<rfloor>" by simp
  ultimately show "0 \<le> round_even (a / pow2 (max (ilog2 a - 52) (- 1074)))"
    and "round_even (a / pow2 (max (ilog2 a - 52) (- 1074))) \<le> 2 ^ 53"
    by (auto simp: round_even_def Let_def p_def [symmetric])
qed

subsection \<open>Reading a decimal rendering back\<close>


















subsection \<open>Evaluations\<close>

lemma parseInt_examples:
  "parseInt ''2000000'' = Fin 2000000"
  "parseInt ''1000000'' = Fin 1000000"
  "parseInt ''0'' = Fin 0"
  by code_simp+

lemma aptToOctas_examples:
  "aptToOctas (js_decimal 5 9) = Inr 0"
  "aptToOctas (js_decimal 15 1) = Inr 150000000"
  "aptToOctas (or_zero (parseFloat ''1.5'')) = Inr 150000000"
  by code_simp+

subsection \<open>Sample runs of the two handlers\<close>

lemmas key_defs = cleanPublicKey_def Let_def startsWith_def toLowerCase_def toLowerChar_def
  slice2_def substring2_def
lemmas resolver_defs = inlineAptosWallet_def foundAccount_def isAptosTagged_def
  isAptosAccount_def useAptosWallet_def

lemma cleanPublicKey_sample: "cleanPublicKey sample_key = Inr sample_key"
  by (simp add: key_defs sample_key_def)

lemma inline_sample:
  "inlineAptosWallet (sample_user a k) = Some \<lparr>address = JString a, publicKey = JString k\<rparr>"
  by (simp add: resolver_defs sample_user_def)

lemma hook_sample:
  "useAptosWallet (Some (sample_user a k)) = Some \<lparr>address = JString a, publicKey = JString k\<rparr>"
  by (simp add: resolver_defs sample_user_def)

lemma sample_key_nonempty: "sample_key \<noteq> []"
  by (simp add: sample_key_def)

lemma transfer_amount: "aptToOctas (or_zero (parseFloat ''1.5'')) = Inr 150000000"
  by (rule aptToOctas_examples)

lemma trim_sample: "trim '' 0xB '' = ''0xB''"
  by (simp add: trim_def is_ws_def)

lemma handlePlay_sample_run:
  "map (\<lambda>(c, u). (c, txHash u))
     (snd (handlePlay sample_world 0 True (Some (sample_user ''0xA'' sample_key)) (sample_page, [])))
   = [(CallBuild ''0xA'' (CONTRACT_ADDRESS @ ''::coin_flip::play'') []
         [ArgNumber 0, ArgString CONTRACT_ADDRESS], []),
      (CallSign (JString ''0xA'') ''aptos'' ''0xb5e9'', []),
      (CallSubmit (RawTransaction 7) (AccountAuthenticatorEd25519 sample_key ''51c4''), []),
      (CallWait ''0xHASH'', []),
      (CallView get_pot_balance, ''0xHASH''),
      (CallView get_pot_balance, ''0xHASH'')]"
  by (simp add: handlePlay_def handlePlay_try_def inline_sample cleanPublicKey_sample
      fetchPotBalance_def act_defs slice2_def sample_world_def sample_page_def Let_def
      sample_key_nonempty)

lemma handleTransaction_sample_run:
  "map (\<lambda>(c, u). (c, txHash u))
     (snd (handleTransaction sample_world 0 True (Some (sample_user ''0xA'' sample_key))
        (sample_page\<lparr>recipientAddress := '' 0xB '', amount := ''1.5''\<rparr>, [])))
   = [(CallBuild ''0xA'' ''0x1::coin::transfer'' [''0x1::aptos_coin::AptosCoin'']
         [ArgAddress ''0xB'', ArgBigInt 150000000], []),
      (CallSign (JString ''0xA'') ''aptos'' ''0xb5e9'', []),
      (CallSubmit (RawTransaction 7) (AccountAuthenticatorEd25519 sample_key ''51c4''), []),
      (CallWait ''0xHASH'', ''0xHASH''),
      (CallBalance (JString ''0xA''), ''0xHASH'')]"
  by (simp add: handleTransaction_def handleTransaction_try_def hook_sample cleanPublicKey_sample
      fetchWalletBalance_def act_defs slice2_def sample_world_def sample_page_def Let_def
      sample_key_nonempty trim_sample isValidAddress_def transfer_amount)

subsection \<open>What the handlers submit, and when they show the hash\<close>

lemma tryCatch_setState_trace:
  "snd (snd (tryCatch m (\<lambda>e. setState (f e)) s)) = snd (snd (m s))"
  by (auto simp: tryCatch_def setState_def split: prod.splits sum.splits)

lemma setState_trace: "snd (snd (setState f s)) = snd s"
  by (simp add: setState_def)

lemma handlePlay_try_submit:
  "(CallSubmit t (AccountAuthenticatorEd25519 p g), b)
     \<in> set (snd (snd (handlePlay_try w k wa pk pb ch (u, [])))) \<Longrightarrow>
   \<exists>a h raw. signRawHash w a ''aptos'' h = Inr raw \<and> g = drop 2 raw"
  by (auto simp: handlePlay_try_def act_defs calls_def fetchPotBalance_def slice2_def
      split: sum.splits option.splits)

lemma handleTransaction_try_submit:
  "(CallSubmit t (AccountAuthenticatorEd25519 p g), b)
     \<in> set (snd (snd (handleTransaction_try w k wa pk r am (u, [])))) \<Longrightarrow>
   \<exists>a h raw. signRawHash w a ''aptos'' h = Inr raw \<and> g = drop 2 raw"
  by (auto simp: handleTransaction_try_def act_defs calls_def fetchWalletBalance_def slice2_def
      split: sum.splits option.splits)

lemma handlePlay_submit:
  "CallSubmit t (AccountAuthenticatorEd25519 p g)
     \<in> set (calls (handlePlay w k au usr (u, []))) \<Longrightarrow>
   \<exists>a h raw. signRawHash w a ''aptos'' h = Inr raw \<and> g = drop 2 raw"
  by (auto simp: handlePlay_def Let_def setState_trace tryCatch_setState_trace calls_def
      setState_def split: option.splits if_splits
      dest!: handlePlay_try_submit)

lemma handleTransaction_submit:
  "CallSubmit t (AccountAuthenticatorEd25519 p g)
     \<in> set (calls (handleTransaction w k au usr (u, []))) \<Longrightarrow>
   \<exists>a h raw. signRawHash w a ''aptos'' h = Inr raw \<and> g = drop 2 raw"
  by (auto simp: handleTransaction_def Let_def setState_trace tryCatch_setState_trace calls_def
      setState_def split: option.splits if_splits
      dest!: handleTransaction_try_submit)

lemma cleanPublicKey_normalized:
  "cleanPublicKey k =
     (if length (normalized_key k) \<noteq> 64
      then Inl (ErrorObj (''Invalid public key length: '' @ show_nat (length (normalized_key k))
                          @ '', expected 64''))
      else Inr (normalized_key k))"
  by (simp add: cleanPublicKey_def normalized_key_def Let_def)

lemma handlePlay_try_bad_key:
  "length (normalized_key pk) \<noteq> 64 \<Longrightarrow>
   handlePlay_try w k wa pk pb ch s =
     (Inr (), (fst s\<lparr>txStatus := Msg ''Invalid public key format'', isLoading := False\<rparr>, snd s))"
  by (simp add: handlePlay_try_def cleanPublicKey_normalized setState_def)

lemma handleTransaction_try_bad_key:
  "length (normalized_key pk) \<noteq> 64 \<Longrightarrow>
   handleTransaction_try w k wa (JString pk) r am s =
     (Inr (), (fst s\<lparr>txStatus := Msg ''Invalid public key format'', isLoading := False\<rparr>, snd s))"
  by (simp add: handleTransaction_try_def cleanPublicKey_normalized setState_def)

lemma handlePlay_bad_key:
  assumes "length (normalized_key pk) \<noteq> 64"
    and "inlineAptosWallet usr = Some \<lparr>address = JString wa, publicKey = JString pk\<rparr>"
  shows "calls (handlePlay w k au (Some usr) s) = calls s"
    and "au \<and> wa \<noteq> [] \<and> pk \<noteq> [] \<Longrightarrow>
         txStatus (fst (handlePlay w k au (Some usr) s)) = Msg ''Invalid public key format''
         \<and> \<not> isLoading (fst (handlePlay w k au (Some usr) s))"
  using assms
  by (auto simp: handlePlay_def Let_def handlePlay_try_bad_key tryCatch_def setState_def calls_def)

lemma handleTransaction_bad_key:
  assumes "length (normalized_key pk) \<noteq> 64"
    and "useAptosWallet (Some usr) = Some \<lparr>address = JString wa, publicKey = JString pk\<rparr>"
  shows "calls (handleTransaction w k au (Some usr) s) = calls s"
    and "au \<and> wa \<noteq> [] \<and> pk \<noteq> [] \<and> trim (recipientAddress (fst s)) \<noteq> []
         \<and> isValidAddress (\<lambda>a. accountAddressFrom w (JString a)) (trim (recipientAddress (fst s)))
             = Inr True \<Longrightarrow>
         txStatus (fst (handleTransaction w k au (Some usr) s)) = Msg ''Invalid public key format''
         \<and> \<not> isLoading (fst (handleTransaction w k au (Some usr) s))"
  using assms
  by (auto simp: handleTransaction_def Let_def handleTransaction_try_bad_key tryCatch_def
      setState_def calls_def)

lemma handlePlay_try_wait:
  "(CallWait h, b) \<in> set (snd (snd (handlePlay_try w k wa pk pb ch (u, [])))) \<Longrightarrow>
   txHash b = txHash u"
  by (auto simp: handlePlay_try_def act_defs fetchPotBalance_def
      split: sum.splits option.splits)

lemma handleTransaction_try_wait:
  "(CallWait h, b) \<in> set (snd (snd (handleTransaction_try w k wa pk r am (u, [])))) \<Longrightarrow>
   txHash b = h"
  by (auto simp: handleTransaction_try_def act_defs fetchWalletBalance_def
      split: sum.splits option.splits)

lemma handlePlay_wait:
  "(CallWait h, b) \<in> set (snd (handlePlay w k au usr (u, []))) \<Longrightarrow> txHash b = txHash u"
  by (auto simp: handlePlay_def Let_def setState_trace tryCatch_setState_trace
      setState_def split: option.splits if_splits
      dest!: handlePlay_try_wait)

lemma handleTransaction_wait:
  "(CallWait h, b) \<in> set (snd (handleTransaction w k au usr (u, []))) \<Longrightarrow> txHash b = h"
  by (auto simp: handleTransaction_def Let_def setState_trace tryCatch_setState_trace
      setState_def split: option.splits if_splits
      dest!: handleTransaction_try_wait)

lemma z_key: "cleanPublicKey (replicate 64 (CHR ''z'')) = Inr (replicate 64 (CHR ''z''))"
  by (simp add: key_defs)

lemma key70: "length (normalized_key (replicate 70 (CHR ''a''))) = 70"
  by (simp add: normalized_key_def Let_def startsWith_def toLowerCase_def toLowerChar_def)

lemma handlePlay_sample_calls:
  "calls (handlePlay sample_world 0 True (Some (sample_user ''0xA'' sample_key)) (sample_page, []))
   = [CallBuild ''0xA'' (CONTRACT_ADDRESS @ ''::coin_flip::play'') []
           [ArgNumber 0, ArgString CONTRACT_ADDRESS],
         CallSign (JString ''0xA'') ''aptos'' ''0xb5e9'',
         CallSubmit (RawTransaction 7) (AccountAuthenticatorEd25519 sample_key ''51c4''),
         CallWait ''0xHASH'',
         CallView get_pot_balance,
         CallView get_pot_balance]"
  using handlePlay_sample_run [THEN arg_cong, of "map fst"]
  by (simp add: calls_def comp_def case_prod_unfold)

subsection \<open>A confirmed play ends with the inferred result\<close>





subsection \<open>The polling loops\<close>

lemma fetchPotBalance_returns: "\<exists>s'. fetchPotBalance w k s = (Inr (), s')"
  by (cases "view w k") (simp_all add: fetchPotBalance_error fetchPotBalance_ok)

lemma fetchPotBalance_calls:
  "calls (snd (fetchPotBalance w k s)) = calls s @ [CallView get_pot_balance]"
  by (cases "view w k") (simp_all add: fetchPotBalance_error fetchPotBalance_ok calls_def)

lemma fetchBalance_returns: "\<exists>t'. fetchBalance w wallet k t = (Inr (), t')"
  by (auto simp: fetchBalance_def act_defs split: option.splits sum.splits)

lemma pot_polls_no_rejection: "fst (interval_polls (fetchPotBalance w) k n s) = []"
proof (induction n arbitrary: k s)
  case 0
  then show ?case by simp
next
  case (Suc n)
  obtain s' where "fetchPotBalance w k s = (Inr (), s')"
    using fetchPotBalance_returns by blast
  with Suc show ?case by simp
qed

lemma pot_polls_calls:
  "length (calls (snd (interval_polls (fetchPotBalance w) k n s))) = length (calls s) + n"
proof (induction n arbitrary: k s)
  case 0
  then show ?case by simp
next
  case (Suc n)
  obtain s' where s': "fetchPotBalance w k s = (Inr (), s')"
    using fetchPotBalance_returns by blast
  then have "calls s' = calls s @ [CallView get_pot_balance]"
    using fetchPotBalance_calls [of w k s] by simp
  with Suc [of "Suc k" s'] s' show ?case by simp
qed

lemma balance_polls_no_rejection: "fst (interval_polls (fetchBalance w wallet) k n t) = []"
proof (induction n arbitrary: k t)
  case 0
  then show ?case by simp
next
  case (Suc n)
  obtain t' where "fetchBalance w wallet k t = (Inr (), t')"
    using fetchBalance_returns by blast
  with Suc show ?case by simp
qed

lemma pot_poll_after_failure:
  assumes "view w k = Inl e" and "view w (Suc k) = Inr v"
  shows "potBalance (fst (snd (interval_polls (fetchPotBalance w) k (Suc (Suc 0)) s))) = v"
  using assms by (simp add: fetchPotBalance_error fetchPotBalance_ok)

lemma fetchBalance_error:
  assumes "\<not> falsy (address wl)"
    and "accountAddressFrom w (address wl) = Inr a"
    and "getAccountAPTAmount w k (JString a) = Inl e"
  shows "fetchBalance w (Some wl) k t =
    (Inr (), (fst t\<lparr>loading := False, error := Some (errorMessageOr e ''Failed to fetch balance'')\<rparr>,
              snd t @ [(CallBalance (JString a), fst t\<lparr>loading := True, error := None\<rparr>)]))"
  using assms by (simp add: fetchBalance_def act_defs)

lemma fetchBalance_ok:
  assumes "\<not> falsy (address wl)"
    and "accountAddressFrom w (address wl) = Inr a"
    and "getAccountAPTAmount w k (JString a) = Inr v"
  shows "fetchBalance w (Some wl) k t =
    (Inr (), (fst t\<lparr>loading := False, error := None,
                     balance := octasToAPT (OStr (show_nat v))\<rparr>,
              snd t @ [(CallBalance (JString a), fst t\<lparr>loading := True, error := None\<rparr>)]))"
  using assms by (simp add: fetchBalance_def act_defs)

lemma balance_poll_after_failure:
  assumes "\<not> falsy (address wl)"
    and "accountAddressFrom w (address wl) = Inr a"
    and "getAccountAPTAmount w k (JString a) = Inl e"
    and "getAccountAPTAmount w (Suc k) (JString a) = Inr v"
  shows "balance (fst (snd (interval_polls (fetchBalance w (Some wl)) k (Suc (Suc 0)) t)))
           = octasToAPT (OStr (show_nat v))"
    and "calls (snd (interval_polls (fetchBalance w (Some wl)) k (Suc (Suc 0)) t))
           = calls t @ [CallBalance (JString a), CallBalance (JString a)]"
  by (simp_all add: fetchBalance_error [OF assms(1-3)] fetchBalance_ok [OF assms(1,2,4)] calls_def)

section \<open>The account resolver\<close>

text \<open>
  Claim C1. The resolver is to return either a pair with both fields or nothing. The
  lookup written out in the pages does (\<open>inlineAptosWallet_fail_closed\<close>); the hook
  \<open>useAptosWallet\<close> does not: for a record tagged \<open>aptos\<close> that has an address and
  no public key it returns a pair whose \<open>publicKey\<close> is \<open>undefined\<close>.
\<close>

theorem useAptosWallet_partial_pair:
  "useAptosWallet (Some \<lparr>linkedAccounts =
       Some [JObject [(''chainType'', JString ''aptos''), (''address'', JString ''0x1'')]]\<rparr>)
     = Some \<lparr>address = JString ''0x1'', publicKey = JUndefined\<rparr>"
  by (simp add: useAptosWallet_def isAptosTagged_def)

section \<open>The signature passed to the authenticator\<close>

text \<open>
  Claim C2, as stated: the signature is stripped of a leading \<open>0x\<close> when it has one
  and is left unchanged otherwise. The handlers call \<open>rawSignature.slice(2)\<close>
  without looking at the first two characters: a signer that answers \<open>51c4\<close>
  (no prefix) has \<open>c4\<close> submitted.
\<close>

theorem signature_without_prefix_is_cut:
  "signRawHash bare_signer_world (JString ''0xA'') ''aptos'' ''0xb5e9'' = Inr ''51c4''
   \<and> \<not> startsWith ''51c4'' ''0x''
   \<and> calls (handlePlay bare_signer_world 0 True (Some (sample_user ''0xA'' sample_key))
        (sample_page, []))
      = [CallBuild ''0xA'' (CONTRACT_ADDRESS @ ''::coin_flip::play'') []
           [ArgNumber 0, ArgString CONTRACT_ADDRESS],
         CallSign (JString ''0xA'') ''aptos'' ''0xb5e9'',
         CallSubmit (RawTransaction 7) (AccountAuthenticatorEd25519 sample_key ''c4''),
         CallWait ''0xHASH'',
         CallView get_pot_balance,
         CallView get_pot_balance]"
  by (simp add: handlePlay_def handlePlay_try_def inline_sample cleanPublicKey_sample
      fetchPotBalance_def act_defs slice2_def bare_signer_world_def sample_world_def
      sample_page_def Let_def sample_key_nonempty calls_def startsWith_def)

text \<open>
  Claim C2, amended: the signature of every authenticator that \<open>handlePlay\<close> or
  \<open>handleTransaction\<close> submits is a signature returned by the signer without its
  first two characters, whatever they are; when the signer's answer begins with
  \<open>0x\<close>, that is exactly the rest after the prefix.
\<close>

theorem authenticator_signature_is_slice2:
  "(CallSubmit t (AccountAuthenticatorEd25519 p g) \<in> set (calls (handlePlay w k au usr (u, []))) \<longrightarrow>
      (\<exists>a h raw. signRawHash w a ''aptos'' h = Inr raw \<and> g = slice2 raw
         \<and> (\<forall>body. raw = ''0x'' @ body \<longrightarrow> g = body)))
   \<and> (CallSubmit t (AccountAuthenticatorEd25519 p g)
         \<in> set (calls (handleTransaction w k au usr (u, []))) \<longrightarrow>
      (\<exists>a h raw. signRawHash w a ''aptos'' h = Inr raw \<and> g = slice2 raw
         \<and> (\<forall>body. raw = ''0x'' @ body \<longrightarrow> g = body)))"
proof (intro conjI impI)
  assume "CallSubmit t (AccountAuthenticatorEd25519 p g) \<in> set (calls (handlePlay w k au usr (u, [])))"
  then obtain a h raw where "signRawHash w a ''aptos'' h = Inr raw" and "g = drop 2 raw"
    using handlePlay_submit by blast
  then show "\<exists>a h raw. signRawHash w a ''aptos'' h = Inr raw \<and> g = slice2 raw
         \<and> (\<forall>body. raw = ''0x'' @ body \<longrightarrow> g = body)"
    by (intro exI [of _ a] exI [of _ h] exI [of _ raw]) (simp add: slice2_def)
next
  assume "CallSubmit t (AccountAuthenticatorEd25519 p g)
            \<in> set (calls (handleTransaction w k au usr (u, [])))"
  then obtain a h raw where "signRawHash w a ''aptos'' h = Inr raw" and "g = drop 2 raw"
    using handleTransaction_submit by blast
  then show "\<exists>a h raw. signRawHash w a ''aptos'' h = Inr raw \<and> g = slice2 raw
         \<and> (\<forall>body. raw = ''0x'' @ body \<longrightarrow> g = body)"
    by (intro exI [of _ a] exI [of _ h] exI [of _ raw]) (simp add: slice2_def)
qed

theorem authenticator_signature_witness:
  "CallSubmit (RawTransaction 7) (AccountAuthenticatorEd25519 sample_key ''51c4'')
     \<in> set (calls (handlePlay sample_world 0 True (Some (sample_user ''0xA'' sample_key))
          (sample_page, [])))
   \<and> (\<exists>a h raw. signRawHash sample_world a ''aptos'' h = Inr raw \<and> ''51c4'' = slice2 raw
         \<and> (\<forall>body. raw = ''0x'' @ body \<longrightarrow> ''51c4'' = body))"
  using authenticator_signature_is_slice2 [of "RawTransaction 7" sample_key "''51c4''"
      sample_world 0 True "Some (sample_user ''0xA'' sample_key)" sample_page]
  by (simp add: handlePlay_sample_calls)

section \<open>When the transaction hash is shown\<close>

text \<open>
  Claim C3. The hash of the pending submission is to be on display before the wait
  for confirmation ends. In a successful play, \<open>handlePlay\<close> has the old
  \<open>txHash\<close> (empty) on display while \<open>waitForTransaction\<close> is pending and sets
  it only afterwards; \<open>handleTransaction\<close> sets it before the wait. Each awaited
  call is listed with the \<open>txHash\<close> on display while it was pending.
  (\<open>handlePlay_wait\<close> and \<open>handleTransaction_wait\<close> say the same of every run.)
\<close>

theorem handlePlay_shows_hash_after_wait:
  "map (\<lambda>(c, u). (c, txHash u))
     (snd (handlePlay sample_world 0 True (Some (sample_user ''0xA'' sample_key)) (sample_page, [])))
   = [(CallBuild ''0xA'' (CONTRACT_ADDRESS @ ''::coin_flip::play'') []
         [ArgNumber 0, ArgString CONTRACT_ADDRESS], []),
      (CallSign (JString ''0xA'') ''aptos'' ''0xb5e9'', []),
      (CallSubmit (RawTransaction 7) (AccountAuthenticatorEd25519 sample_key ''51c4''), []),
      (CallWait ''0xHASH'', []),
      (CallView get_pot_balance, ''0xHASH''),
      (CallView get_pot_balance, ''0xHASH'')]
   \<and> map (\<lambda>(c, u). (c, txHash u))
     (snd (handleTransaction sample_world 0 True (Some (sample_user ''0xA'' sample_key))
        (sample_page\<lparr>recipientAddress := '' 0xB '', amount := ''1.5''\<rparr>, [])))
   = [(CallBuild ''0xA'' ''0x1::coin::transfer'' [''0x1::aptos_coin::AptosCoin'']
         [ArgAddress ''0xB'', ArgBigInt 150000000], []),
      (CallSign (JString ''0xA'') ''aptos'' ''0xb5e9'', []),
      (CallSubmit (RawTransaction 7) (AccountAuthenticatorEd25519 sample_key ''51c4''), []),
      (CallWait ''0xHASH'', ''0xHASH''),
      (CallBalance (JString ''0xA''), ''0xHASH'')]"
  by (simp only: handlePlay_sample_run handleTransaction_sample_run)

section \<open>Unit conversion\<close>

text \<open>
  Claim C4. Converting an amount with at most 8 fractional digits to octas and back is
  to give the amount again. For the amount 0.00000003 the product with 100000000 is
  rounded to a number just below 3, \<open>Math.floor\<close> makes it 2, and the way back
  gives 0.00000002.
\<close>

theorem aptToOctas_loses_an_octa:
  "aptToOctas (js_decimal 3 8) = Inr 2
   \<and> octasToAPT (OBig 2) = js_decimal 2 8
   \<and> js_decimal 2 8 \<noteq> js_decimal 3 8"
  by code_simp

section \<open>Key normalisation\<close>

text \<open>
  Claim C5, as stated: \<open>cleanPublicKey\<close> applied twice gives what it gives applied
  once, on every input on which it succeeds. The function checks the length of its
  result and not its characters, so a result can begin with \<open>0x\<close> again; the second
  application then strips it and fails on the length.
\<close>

theorem cleanPublicKey_not_idempotent:
  "cleanPublicKey (''0x0x'' @ replicate 62 (CHR ''a'')) = Inr (''0x'' @ replicate 62 (CHR ''a''))
   \<and> cleanPublicKey_twice (''0x0x'' @ replicate 62 (CHR ''a''))
       \<noteq> cleanPublicKey (''0x0x'' @ replicate 62 (CHR ''a''))"
  by (simp add: cleanPublicKey_twice_def cleanPublicKey_def Let_def startsWith_def
      toLowerCase_def toLowerChar_def slice2_def substring2_def)

text \<open>
  Claim C5, amended: on every input on which \<open>cleanPublicKey\<close> succeeds with a result
  that does not begin with \<open>0x\<close> or \<open>0X\<close>, in particular whenever the result
  consists of hex digits, a second application returns the same 64-character result;
  and a 66-character string beginning with \<open>00\<close> yields its last 64 characters.
\<close>

theorem cleanPublicKey_idempotent_unless_prefixed:
  "(cleanPublicKey k = Inr r \<and> \<not> startsWith (toLowerCase r) ''0x'' \<longrightarrow>
      cleanPublicKey_twice k = cleanPublicKey k \<and> length r = 64)
   \<and> (cleanPublicKey k = Inr r \<and> is_hex r \<longrightarrow>
      cleanPublicKey_twice k = cleanPublicKey k \<and> length r = 64)
   \<and> (length k = 66 \<and> startsWith k ''00'' \<longrightarrow>
      cleanPublicKey k = Inr (drop (length k - 64) k))"
proof (intro conjI impI)
  assume h: "cleanPublicKey k = Inr r \<and> \<not> startsWith (toLowerCase r) ''0x''"
  then have len: "length r = 64" by (auto dest: cleanPublicKey_length)
  with h have "cleanPublicKey r = Inr r" by (simp add: cleanPublicKey_fixed)
  with h show "cleanPublicKey_twice k = cleanPublicKey k"
    by (simp add: cleanPublicKey_twice_def)
  from len show "length r = 64" .
next
  assume h: "cleanPublicKey k = Inr r \<and> is_hex r"
  then have len: "length r = 64" by (auto dest: cleanPublicKey_length)
  from h have "\<not> startsWith (toLowerCase r) ''0x''" by (simp add: hex_no_0x)
  with len have "cleanPublicKey r = Inr r" by (simp add: cleanPublicKey_fixed)
  with h show "cleanPublicKey_twice k = cleanPublicKey k"
    by (simp add: cleanPublicKey_twice_def)
  from len show "length r = 64" .
next
  assume "length k = 66 \<and> startsWith k ''00''"
  then show "cleanPublicKey k = Inr (drop (length k - 64) k)"
    by (simp add: cleanPublicKey_66)
qed

theorem cleanPublicKey_idempotent_witness:
  "cleanPublicKey (''0x'' @ sample_key) = Inr sample_key
   \<and> is_hex sample_key
   \<and> cleanPublicKey_twice (''0x'' @ sample_key) = cleanPublicKey (''0x'' @ sample_key)
   \<and> cleanPublicKey (''00'' @ sample_key) = Inr sample_key"
  using cleanPublicKey_idempotent_unless_prefixed [of "''0x'' @ sample_key" sample_key]
    cleanPublicKey_idempotent_unless_prefixed [of "''00'' @ sample_key" sample_key]
  by (simp add: cleanPublicKey_def Let_def startsWith_def toLowerCase_def toLowerChar_def
      slice2_def substring2_def sample_key_def is_hex_def is_hex_char_def list_all_iff)

text \<open>
  Claim C6, as stated: every key whose normalised form is not exactly 64 hex
  characters stops the pipeline with an invalid-key-format failure before any call
  to the network. The check is on the length alone: 64 characters that are not hex
  digits pass it, and the transaction is built and sent for signing. An empty key is
  stopped earlier, by the guard whose message is "Wallet not properly configured".
\<close>

theorem key_check_is_length_only:
  "length (normalized_key (replicate 64 (CHR ''z''))) = 64
   \<and> \<not> is_hex (normalized_key (replicate 64 (CHR ''z'')))
   \<and> take 2 (calls (handlePlay sample_world 0 True
        (Some (sample_user ''0xA'' (replicate 64 (CHR ''z'')))) (sample_page, [])))
      = [CallBuild ''0xA'' (CONTRACT_ADDRESS @ ''::coin_flip::play'') []
           [ArgNumber 0, ArgString CONTRACT_ADDRESS],
         CallSign (JString ''0xA'') ''aptos'' ''0xb5e9'']
   \<and> length (normalized_key []) \<noteq> 64
   \<and> txStatus (fst (handlePlay sample_world 0 True (Some (sample_user ''0xA'' []))
        (sample_page, []))) = Msg ''Wallet not properly configured''"
  by (simp add: handlePlay_def handlePlay_try_def inline_sample z_key
      fetchPotBalance_def act_defs slice2_def sample_world_def
      sample_page_def Let_def calls_def startsWith_def normalized_key_def toLowerCase_def
      is_hex_def is_hex_char_def substring2_def list_all_iff)

text \<open>
  Claim C6, amended: for every resolved public key whose normalised form (after
  stripping an optional \<open>0x\<close> or \<open>0X\<close> prefix and an optional leading \<open>00\<close> of
  a 66-character string) does not have length 64, for example a key of 70 hex
  characters, neither handler makes any call to the chain client or the signer; when
  the handler gets as far as the key (authenticated, address and key not empty, and
  for the transfer a valid recipient) the status is "Invalid public key format" and
  the loading flag is cleared.
\<close>

theorem invalid_key_length_halts_before_network:
  "(length (normalized_key pk) \<noteq> 64
      \<and> inlineAptosWallet usr = Some \<lparr>address = JString wa, publicKey = JString pk\<rparr> \<longrightarrow>
        calls (handlePlay w k au (Some usr) s) = calls s
        \<and> (au \<and> wa \<noteq> [] \<and> pk \<noteq> [] \<longrightarrow>
             txStatus (fst (handlePlay w k au (Some usr) s)) = Msg ''Invalid public key format''
             \<and> \<not> isLoading (fst (handlePlay w k au (Some usr) s))))
   \<and> (length (normalized_key pk) \<noteq> 64
      \<and> useAptosWallet (Some usr) = Some \<lparr>address = JString wa, publicKey = JString pk\<rparr> \<longrightarrow>
        calls (handleTransaction w k au (Some usr) s) = calls s
        \<and> (au \<and> wa \<noteq> [] \<and> pk \<noteq> [] \<and> trim (recipientAddress (fst s)) \<noteq> []
             \<and> isValidAddress (\<lambda>a. accountAddressFrom w (JString a))
                  (trim (recipientAddress (fst s))) = Inr True \<longrightarrow>
             txStatus (fst (handleTransaction w k au (Some usr) s))
               = Msg ''Invalid public key format''
             \<and> \<not> isLoading (fst (handleTransaction w k au (Some usr) s))))"
  using handlePlay_bad_key [where pk = pk and usr = usr and wa = wa and w = w and k = k
      and au = au and s = s]
    handleTransaction_bad_key [where pk = pk and usr = usr and wa = wa and w = w and k = k
      and au = au and s = s]
  by blast

theorem invalid_key_length_witness:
  "length (normalized_key (replicate 70 (CHR ''a''))) \<noteq> 64
   \<and> calls (handlePlay sample_world 0 True (Some (sample_user ''0xA'' (replicate 70 (CHR ''a''))))
        (sample_page, [])) = []
   \<and> txStatus (fst (handlePlay sample_world 0 True
        (Some (sample_user ''0xA'' (replicate 70 (CHR ''a'')))) (sample_page, [])))
      = Msg ''Invalid public key format''
   \<and> calls (handleTransaction sample_world 0 True
        (Some (sample_user ''0xA'' (replicate 70 (CHR ''a''))))
        (sample_page\<lparr>recipientAddress := '' 0xB ''\<rparr>, [])) = []
   \<and> txStatus (fst (handleTransaction sample_world 0 True
        (Some (sample_user ''0xA'' (replicate 70 (CHR ''a''))))
        (sample_page\<lparr>recipientAddress := '' 0xB ''\<rparr>, [])))
      = Msg ''Invalid public key format''"
  using invalid_key_length_halts_before_network [of "replicate 70 (CHR ''a'')"
      "sample_user ''0xA'' (replicate 70 (CHR ''a''))" "''0xA''" sample_world 0 True
      "(sample_page, [])"]
    invalid_key_length_halts_before_network [of "replicate 70 (CHR ''a'')"
      "sample_user ''0xA'' (replicate 70 (CHR ''a''))" "''0xA''" sample_world 0 True
      "(sample_page\<lparr>recipientAddress := '' 0xB ''\<rparr>, [])"]
  by (simp add: key70 inline_sample hook_sample calls_def trim_sample isValidAddress_def
      sample_world_def sample_page_def)

section \<open>Win or loss\<close>








section \<open>Address validation\<close>

text \<open>
  Claim C8. \<open>isValidAddress\<close> returns a boolean for every string and never throws:
  \<open>true\<close> when the SDK parser accepts the string, \<open>false\<close> when the parser throws.
\<close>

theorem isValidAddress_never_throws:
  "(\<exists>b. isValidAddress p a = Inr b)
   \<and> (\<forall>r. p a = Inr r \<longrightarrow> isValidAddress p a = Inr True)
   \<and> (\<forall>e. p a = Inl e \<longrightarrow> isValidAddress p a = Inr False)"
  by (auto simp add: isValidAddress_def split: sum.splits)

theorem isValidAddress_never_throws_witness:
  "isValidAddress (\<lambda>a. accountAddressFrom sample_world (JString a)) ''0x1'' = Inr True
   \<and> isValidAddress (\<lambda>a. Inl (ErrorObj ''Hex string is too short'')) [] = Inr False"
  using isValidAddress_never_throws [of "\<lambda>a. accountAddressFrom sample_world (JString a)" "''0x1''"]
    isValidAddress_never_throws [of "\<lambda>a. Inl (ErrorObj ''Hex string is too short'')" "[]"]
  by (simp add: sample_world_def)

section \<open>The polling loops\<close>

text \<open>
  Claim C9. A read that throws is caught inside the poll (\<open>fetchPotBalance\<close> of the
  page, \<open>fetchBalance\<close> of the balance hook): the poll returns normally, the timer
  collects no rejection, every scheduled poll issues its read, and the poll after a
  failed one publishes what it reads.
\<close>

theorem polling_survives_failed_poll:
  "(\<exists>s'. fetchPotBalance w k s = (Inr (), s'))
   \<and> fst (interval_polls (fetchPotBalance w) k n s) = []
   \<and> length (calls (snd (interval_polls (fetchPotBalance w) k n s))) = length (calls s) + n
   \<and> (view w k = Inl e \<and> view w (Suc k) = Inr v \<longrightarrow>
        potBalance (fst (snd (interval_polls (fetchPotBalance w) k (Suc (Suc 0)) s))) = v)
   \<and> (\<exists>t'. fetchBalance w wallet k t = (Inr (), t'))
   \<and> fst (interval_polls (fetchBalance w wallet) k n t) = []
   \<and> (\<not> falsy (address wl) \<and> accountAddressFrom w (address wl) = Inr a
        \<and> getAccountAPTAmount w k (JString a) = Inl e
        \<and> getAccountAPTAmount w (Suc k) (JString a) = Inr b \<longrightarrow>
        balance (fst (snd (interval_polls (fetchBalance w (Some wl)) k (Suc (Suc 0)) t)))
          = octasToAPT (OStr (show_nat b))
        \<and> calls (snd (interval_polls (fetchBalance w (Some wl)) k (Suc (Suc 0)) t))
          = calls t @ [CallBalance (JString a), CallBalance (JString a)])"
  using fetchPotBalance_returns [of w k s] pot_polls_no_rejection [of w k n s]
    pot_polls_calls [of w k n s] pot_poll_after_failure [of w k e v s]
    fetchBalance_returns [of w wallet k t] balance_polls_no_rejection [of w wallet k n t]
    balance_poll_after_failure [of wl w a k e b t]
  by blast

theorem polling_survives_witness:
  "view flaky_world 0 = Inl (ErrorObj ''Network Error'')
   \<and> fst (interval_polls (fetchPotBalance flaky_world) 0 (Suc (Suc 0)) (sample_page, [])) = []
   \<and> potBalance (fst (snd (interval_polls (fetchPotBalance flaky_world) 0 (Suc (Suc 0))
        (sample_page, [])))) = ''3000000''
   \<and> length (calls (snd (interval_polls (fetchPotBalance flaky_world) 0 (Suc (Suc 0))
        (sample_page, [])))) = 2
   \<and> balance (fst (snd (interval_polls
        (fetchBalance flaky_world (Some \<lparr>address = JString ''0xA'', publicKey = JString sample_key\<rparr>))
        0 (Suc (Suc 0)) (sample_balance, []))))
      = octasToAPT (OStr (show_nat 250000000))
   \<and> calls (snd (interval_polls
        (fetchBalance flaky_world (Some \<lparr>address = JString ''0xA'', publicKey = JString sample_key\<rparr>))
        0 (Suc (Suc 0)) (sample_balance, [])))
      = [CallBalance (JString ''0xA''), CallBalance (JString ''0xA'')]"
  using polling_survives_failed_poll [of flaky_world 0 "(sample_page, [])" "Suc (Suc 0)"
      "ErrorObj ''Network Error''" "''3000000''"
      "Some \<lparr>address = JString ''0xA'', publicKey = JString sample_key\<rparr>"
      "(sample_balance, [])"
      "\<lparr>address = JString ''0xA'', publicKey = JString sample_key\<rparr>" "''0xA''" 250000000]
  by (simp add: flaky_world_def sample_world_def calls_def)

section \<open>The two pollers on a failed read\<close>

text \<open>
  Claim C10. When the read of the wallet balance fails, \<open>fetchWalletBalance\<close>
  publishes \<open>"0"\<close> in place of the last value; when the read of the pot fails,
  \<open>fetchPotBalance\<close> leaves the published pot as it was.
\<close>

theorem pollers_disagree_on_failed_read:
  "(getAccountAPTAmount w k a = Inl e \<longrightarrow>
      walletBalance (fst (snd (fetchWalletBalance w k a s))) = ''0'')
   \<and> (view w k = Inl e \<longrightarrow>
      potBalance (fst (snd (fetchPotBalance w k s))) = potBalance (fst s))"
  by (simp add: fetchWalletBalance_error fetchPotBalance_error)

theorem pollers_disagree_witness:
  "walletBalance (fst (snd (fetchWalletBalance failing_world 0 (JString ''0x1'')
       (sample_page\<lparr>walletBalance := ''250000000'', potBalance := ''3000000''\<rparr>, [])))) = ''0''
   \<and> potBalance (fst (snd (fetchPotBalance failing_world 0
       (sample_page\<lparr>walletBalance := ''250000000'', potBalance := ''3000000''\<rparr>, []))))
      = ''3000000''"
  using pollers_disagree_on_failed_read [of failing_world 0 "JString ''0x1''"
      "ErrorObj ''Network Error''"
      "(sample_page\<lparr>walletBalance := ''250000000'', potBalance := ''3000000''\<rparr>, [])"]
  by (simp add: failing_world_def sample_world_def sample_page_def)

end
